theory Spec2Isabelle
  imports Main
begin

section \<open>JavaScript numbers\<close>

text \<open>
  The editor computes with JavaScript numbers. The model keeps the two kinds of value the
  editor's own code produces: \<open>NaN\<close> (what \<open>parseInt\<close> returns for a text with no leading
  digits) and the integers (the defaults 50, 120, 40, 800, 500, the results of \<open>parseInt\<close>,
  the \<open>+ 10\<close> offsets), on which \<open>+\<close>, \<open>-\<close>, \<open>Math.min\<close> and \<open>Math.max\<close> of IEEE doubles are
  exact below \<open>2^53\<close>. Fractions and the infinities are outside the model.
\<close>

datatype jsnum = NaN | Fin int

text \<open>\<open>Math.max(a, b)\<close> and \<open>Math.min(a, b)\<close>: \<open>NaN\<close> as soon as one argument is \<open>NaN\<close>.\<close>

fun Math_max :: "jsnum \<Rightarrow> jsnum \<Rightarrow> jsnum" where
  "Math_max (Fin a) (Fin b) = Fin (max a b)"
| "Math_max _ _ = NaN"

fun Math_min :: "jsnum \<Rightarrow> jsnum \<Rightarrow> jsnum" where
  "Math_min (Fin a) (Fin b) = Fin (min a b)"
| "Math_min _ _ = NaN"

text \<open>\<open>a + b\<close> and \<open>a - b\<close> on numbers.\<close>

fun js_plus :: "jsnum \<Rightarrow> jsnum \<Rightarrow> jsnum" where
  "js_plus (Fin a) (Fin b) = Fin (a + b)"
| "js_plus _ _ = NaN"

fun js_minus :: "jsnum \<Rightarrow> jsnum \<Rightarrow> jsnum" where
  "js_minus (Fin a) (Fin b) = Fin (a - b)"
| "js_minus _ _ = NaN"

text \<open>\<open>a !== b\<close> on numbers: \<open>NaN\<close> is different from every number, itself included.\<close>

fun js_strict_neq :: "jsnum \<Rightarrow> jsnum \<Rightarrow> bool" where
  "js_strict_neq (Fin a) (Fin b) = (a \<noteq> b)"
| "js_strict_neq _ _ = True"

text \<open>\<open>a < b\<close> and \<open>a <= b\<close> on numbers: false as soon as one side is \<open>NaN\<close>.\<close>

fun js_lt :: "jsnum \<Rightarrow> jsnum \<Rightarrow> bool" where
  "js_lt (Fin a) (Fin b) = (a < b)"
| "js_lt _ _ = False"

fun js_le :: "jsnum \<Rightarrow> jsnum \<Rightarrow> bool" where
  "js_le (Fin a) (Fin b) = (a \<le> b)"
| "js_le _ _ = False"

fun isNaN :: "jsnum \<Rightarrow> bool" where
  "isNaN NaN = True"
| "isNaN (Fin _) = False"

text \<open>
  \<open>v || d\<close> where \<open>v\<close> is a number or \<open>undefined\<close> (\<open>None\<close>): \<open>undefined\<close>, \<open>NaN\<close> and \<open>0\<close> are
  falsy and give \<open>d\<close>.
\<close>

fun js_or :: "jsnum option \<Rightarrow> jsnum \<Rightarrow> jsnum" where
  "js_or None d = d"
| "js_or (Some NaN) d = d"
| "js_or (Some (Fin n)) d = (if n = 0 then d else Fin n)"

subsection \<open>\<open>parseInt(value, 10)\<close>\<close>

text \<open>
  \<open>parseInt\<close> with radix 10: leading white space is dropped, one sign is read, then the
  longest run of decimal digits; with no digit the result is \<open>NaN\<close>. Whatever follows the
  digits is ignored. (Strings are byte strings here, so the white space is the ASCII one.)
\<close>

definition isStrWhiteSpaceChar :: "char \<Rightarrow> bool" where
  "isStrWhiteSpaceChar c = (c \<in> set [CHR 0x09, CHR 0x0A, CHR 0x0B, CHR 0x0C, CHR 0x0D, CHR '' ''])"

definition isDigit :: "char \<Rightarrow> bool" where
  "isDigit c = (c \<in> set ''0123456789'')"

definition digitValue :: "char \<Rightarrow> nat" where
  "digitValue c = of_char c - 48"

definition digitsValue :: "string \<Rightarrow> nat" where
  "digitsValue Z = foldl (\<lambda>acc c. 10 * acc + digitValue c) 0 Z"

definition parseInt :: "string \<Rightarrow> jsnum" where
  "parseInt inputString =
     (let S = dropWhile isStrWhiteSpaceChar inputString;
          sign = (case S of c # _ \<Rightarrow> if c = CHR ''-'' then - 1 else 1 | [] \<Rightarrow> (1::int));
          S' = (case S of c # cs \<Rightarrow> if c = CHR ''-'' \<or> c = CHR ''+'' then cs else S | [] \<Rightarrow> S);
          Z = takeWhile isDigit S'
      in if Z = [] then NaN else Fin (sign * int (digitsValue Z)))"

subsection \<open>\<open>String(n)\<close> for a time stamp\<close>

text \<open>\<open>Date.now()\<close> is a natural number of milliseconds; \<open>String\<close> writes it in decimal.\<close>

fun js_String :: "nat \<Rightarrow> string" where
  "js_String n =
     (if n < 10 then [''0123456789'' ! n]
      else js_String (n div 10) @ [''0123456789'' ! (n mod 10)])"

declare js_String.simps [simp del]

section \<open>Data\<close>

datatype ButtonType = normal | label

record ChartButton =
  id' :: string
  name :: string
  color :: string
  linkedItem :: string
  x :: jsnum
  y :: jsnum
  width :: jsnum
  height :: jsnum
  type :: ButtonType
  isFontAdaptive :: bool
  fontSize :: jsnum
  fontColor :: string
  showLegend :: bool
  legendOverrides :: "string \<rightharpoonup> string"

text \<open>The \<open>chart\<close> prop: the stored chart the session started from.\<close>

record StoredChart =
  chart_name :: string
  chart_buttons :: "ChartButton list"
  chart_canvasWidth :: "jsnum option"
  chart_canvasHeight :: "jsnum option"

text \<open>A range of the range context; the editor reads only its id.\<close>

record Range =
  range_id :: string

record Folder =
  ranges :: "Range list"

text \<open>The component's state: one field per \<open>useState\<close>.\<close>

record EditorState =
  chartName :: string
  buttons :: "ChartButton list"
  canvasWidth :: jsnum
  canvasHeight :: jsnum
  isButtonModalOpen :: bool
  editingButton :: "ChartButton option"
  isLegendPreviewOpen :: bool

datatype Dimension = dim_width | dim_height

definition MIN_CANVAS_DIMENSION :: jsnum where
  "MIN_CANVAS_DIMENSION = Fin 100"

definition MIN_BUTTON_DIMENSION :: jsnum where
  "MIN_BUTTON_DIMENSION = Fin 5"

definition allRanges :: "Folder list \<Rightarrow> Range list" where
  "allRanges folders = concat (map ranges folders)"

definition initialState :: "StoredChart \<Rightarrow> EditorState" where
  "initialState chart =
     \<lparr> chartName = chart_name chart,
       buttons = chart_buttons chart,
       canvasWidth = js_or (chart_canvasWidth chart) (Fin 800),
       canvasHeight = js_or (chart_canvasHeight chart) (Fin 500),
       isButtonModalOpen = False,
       editingButton = None,
       isLegendPreviewOpen = False \<rparr>"

section \<open>The canvas reclamp effect\<close>

text \<open>
  The callback of \<open>prevButtons.map\<close>: the first component says whether the callback set
  \<open>changed\<close>, the second is the element it returns (the button itself, or a copy with the
  new geometry).
\<close>

definition reclampButton :: "jsnum \<Rightarrow> jsnum \<Rightarrow> ChartButton \<Rightarrow> bool \<times> ChartButton" where
  "reclampButton cw ch button =
     (let newWidth0 = Math_max MIN_BUTTON_DIMENSION (width button);
          newHeight0 = Math_max MIN_BUTTON_DIMENSION (height button);
          newX = Math_max (Fin 0) (Math_min (x button) (js_minus cw newWidth0));
          newY = Math_max (Fin 0) (Math_min (y button) (js_minus ch newHeight0));
          newWidth = Math_min newWidth0 (js_minus cw newX);
          newHeight = Math_min newHeight0 (js_minus ch newY)
      in if js_strict_neq newX (x button) \<or> js_strict_neq newY (y button) \<or>
            js_strict_neq newWidth (width button) \<or> js_strict_neq newHeight (height button)
         then (True, button\<lparr>x := newX, y := newY, width := newWidth, height := newHeight\<rparr>)
         else (False, button))"

text \<open>The geometry clamp of one button: the element the callback returns.\<close>

definition clamp :: "ChartButton \<Rightarrow> jsnum \<Rightarrow> jsnum \<Rightarrow> ChartButton" where
  "clamp button cw ch = snd (reclampButton cw ch button)"

text \<open>
  The \<open>map\<close> over the buttons, threading the flag \<open>changed\<close> (initially false) that the
  callback sets.
\<close>

fun reclampMap :: "jsnum \<Rightarrow> jsnum \<Rightarrow> bool \<Rightarrow> ChartButton list \<Rightarrow> bool \<times> ChartButton list" where
  "reclampMap cw ch changed [] = (changed, [])"
| "reclampMap cw ch changed (button # rest) =
     (let (c, button') = reclampButton cw ch button;
          (changed', rest') = reclampMap cw ch (changed \<or> c) rest
      in (changed', button' # rest'))"

text \<open>
  What a state updater hands back: \<open>Kept\<close> is the array it was given (the same reference),
  \<open>Fresh\<close> a newly built array.
\<close>

datatype 'a returned = Kept 'a | Fresh 'a

fun array_of :: "'a returned \<Rightarrow> 'a" where
  "array_of (Kept a) = a"
| "array_of (Fresh a) = a"

text \<open>The updater passed to \<open>setButtons\<close> by the effect.\<close>

definition reclampButtons :: "jsnum \<Rightarrow> jsnum \<Rightarrow> ChartButton list \<Rightarrow> ChartButton list returned" where
  "reclampButtons cw ch prevButtons =
     (let (changed, updatedButtons) = reclampMap cw ch False prevButtons
      in if changed then Fresh updatedButtons else Kept prevButtons)"

text \<open>The effect with dependencies \<open>[canvasWidth, canvasHeight]\<close>.\<close>

definition canvasReclampEffect :: "EditorState \<Rightarrow> EditorState" where
  "canvasReclampEffect s =
     s\<lparr>buttons := array_of (reclampButtons (canvasWidth s) (canvasHeight s) (buttons s))\<rparr>"

text \<open>
  React runs the effect after a render in which a dependency is not \<open>Object.is\<close>-equal to
  its previous value; \<open>Object.is\<close> on numbers of this model is equality (\<open>NaN\<close> is \<open>NaN\<close>).
\<close>

definition afterRender :: "EditorState \<Rightarrow> EditorState \<Rightarrow> EditorState" where
  "afterRender old new =
     (if canvasWidth new = canvasWidth old \<and> canvasHeight new = canvasHeight old
      then new else canvasReclampEffect new)"

section \<open>The handlers\<close>

text \<open>
  Each handler is a function on the state. What a handler reads from outside the state is
  a parameter: the range context (\<open>folders\<close>), the clock (\<open>now\<close>, the value of \<open>Date.now()\<close>),
  the \<open>chart\<close> prop.
\<close>

definition newButton :: "Folder list \<Rightarrow> nat \<Rightarrow> ChartButton" where
  "newButton folders now =
     \<lparr> id' = js_String now,
       name = ''new'',
       color = ''#60A5FA'',
       linkedItem = (if length (allRanges folders) > 0
                     then range_id (hd (allRanges folders)) else ''label-only''),
       x = Fin 50,
       y = Fin 50,
       width = Fin 120,
       height = Fin 40,
       type = (if length (allRanges folders) > 0 then normal else label),
       isFontAdaptive = True,
       fontSize = Fin 16,
       fontColor = ''white'',
       showLegend = False,
       legendOverrides = Map.empty \<rparr>"

definition handleAddButton :: "Folder list \<Rightarrow> nat \<Rightarrow> EditorState \<Rightarrow> EditorState" where
  "handleAddButton folders now s =
     s\<lparr>buttons := buttons s @ [newButton folders now],
       editingButton := Some (newButton folders now),
       isButtonModalOpen := True\<rparr>"

definition handleSettingsClick :: "ChartButton \<Rightarrow> EditorState \<Rightarrow> EditorState" where
  "handleSettingsClick button s =
     s\<lparr>editingButton := Some button, isButtonModalOpen := True\<rparr>"

text \<open>
  \<open>setEditingButton\<close> is handed to the settings dialog, which replaces the draft while the
  user edits. The dialog's code is not among the sources; a call is modelled in its updater form,
  with any function of the previous draft.
\<close>

definition setEditingButton ::
  "(ChartButton option \<Rightarrow> ChartButton option) \<Rightarrow> EditorState \<Rightarrow> EditorState" where
  "setEditingButton f s = s\<lparr>editingButton := f (editingButton s)\<rparr>"

definition handleSaveButtonProperties :: "EditorState \<Rightarrow> EditorState" where
  "handleSaveButtonProperties s =
     (case editingButton s of
        Some eb \<Rightarrow>
          s\<lparr>buttons := map (\<lambda>btn. if id' btn = id' eb then eb else btn) (buttons s),
            isButtonModalOpen := False,
            editingButton := None\<rparr>
      | None \<Rightarrow> s)"

definition handleCancelButtonProperties :: "StoredChart \<Rightarrow> EditorState \<Rightarrow> EditorState" where
  "handleCancelButtonProperties chart s =
     (let s' = (case editingButton s of
                  Some eb \<Rightarrow>
                    if \<not> list_ex (\<lambda>b. id' b = id' eb) (chart_buttons chart)
                    then s\<lparr>buttons := filter (\<lambda>b. id' b \<noteq> id' eb) (buttons s)\<rparr>
                    else s
                | None \<Rightarrow> s)
      in s'\<lparr>isButtonModalOpen := False, editingButton := None\<rparr>)"

definition duplicateCurrentButton :: "nat \<Rightarrow> EditorState \<Rightarrow> EditorState" where
  "duplicateCurrentButton now s =
     (case editingButton s of
        Some eb \<Rightarrow>
          s\<lparr>buttons := buttons s @
                 [eb\<lparr>id' := js_String now,
                     x := js_plus (x eb) (Fin 10),
                     y := js_plus (y eb) (Fin 10)\<rparr>],
            isButtonModalOpen := False,
            editingButton := None\<rparr>
      | None \<Rightarrow> s)"

definition handleDeleteButton :: "EditorState \<Rightarrow> EditorState" where
  "handleDeleteButton s =
     (case editingButton s of
        Some eb \<Rightarrow>
          s\<lparr>buttons := filter (\<lambda>btn. id' btn \<noteq> id' eb) (buttons s),
            isButtonModalOpen := False,
            editingButton := None\<rparr>
      | None \<Rightarrow> s)"

text \<open>The setter chosen by \<open>dimension === 'width' ? setCanvasWidth : setCanvasHeight\<close>.\<close>

fun setter :: "Dimension \<Rightarrow> jsnum \<Rightarrow> EditorState \<Rightarrow> EditorState" where
  "setter dim_width v s = s\<lparr>canvasWidth := v\<rparr>"
| "setter dim_height v s = s\<lparr>canvasHeight := v\<rparr>"

definition handleDimensionChange :: "string \<Rightarrow> Dimension \<Rightarrow> EditorState \<Rightarrow> EditorState" where
  "handleDimensionChange value dimension s = setter dimension (parseInt value) s"

definition handleDimensionBlur :: "jsnum \<Rightarrow> Dimension \<Rightarrow> EditorState \<Rightarrow> EditorState" where
  "handleDimensionBlur currentValue dimension s =
     (if isNaN currentValue \<or> js_lt currentValue MIN_CANVAS_DIMENSION
      then setter dimension MIN_CANVAS_DIMENSION s
      else s)"

definition handleOpenLegendPreview :: "EditorState \<Rightarrow> EditorState" where
  "handleOpenLegendPreview s =
     (case editingButton s of Some _ \<Rightarrow> s\<lparr>isLegendPreviewOpen := True\<rparr> | None \<Rightarrow> s)"

definition handleSaveLegendOverrides :: "(string \<rightharpoonup> string) \<Rightarrow> EditorState \<Rightarrow> EditorState" where
  "handleSaveLegendOverrides newOverrides s =
     s\<lparr>editingButton :=
         (case editingButton s of
            None \<Rightarrow> None
          | Some prev \<Rightarrow> Some (prev\<lparr>legendOverrides := newOverrides\<rparr>)),
       isLegendPreviewOpen := False\<rparr>"

text \<open>
  The first render runs every effect: the state the session starts from is the initial state
  after the reclamp. (The effect with the dependency \<open>[chart]\<close> sets the state to its initial
  values again; the \<open>chart\<close> prop does not change during a session.)
\<close>

definition mounted :: "StoredChart \<Rightarrow> EditorState" where
  "mounted chart = canvasReclampEffect (initialState chart)"

text \<open>A handler followed by the render it causes and the effects of that render.\<close>

definition event :: "(EditorState \<Rightarrow> EditorState) \<Rightarrow> EditorState \<Rightarrow> EditorState" where
  "event handler s = afterRender s (handler s)"

text \<open>The value of one canvas dimension, as the controls show it.\<close>

fun dimensionValue :: "Dimension \<Rightarrow> EditorState \<Rightarrow> jsnum" where
  "dimensionValue dim_width s = canvasWidth s"
| "dimensionValue dim_height s = canvasHeight s"

section \<open>The geometry invariant\<close>

text \<open>
  The invariant of the claims, with the comparisons of JavaScript: \<open>x + width <= W\<close>,
  \<open>y + height <= H\<close>, \<open>width >= 5\<close>, \<open>height >= 5\<close>.
\<close>

definition geometryInvariant :: "jsnum \<Rightarrow> jsnum \<Rightarrow> ChartButton \<Rightarrow> bool" where
  "geometryInvariant W H b =
     (js_le (js_plus (x b) (width b)) W \<and> js_le (js_plus (y b) (height b)) H \<and>
      js_le MIN_BUTTON_DIMENSION (width b) \<and> js_le MIN_BUTTON_DIMENSION (height b))"



section \<open>The clamp along one axis\<close>

text \<open>
  The values of the locals \<open>newX\<close> and \<open>newWidth\<close> (and, with the height of the canvas, of
  \<open>newY\<close> and \<open>newHeight\<close>) as functions of the canvas size \<open>c\<close>, the position \<open>p\<close> and the
  size \<open>s\<close> of the button on that axis. They serve the proofs only.
\<close>

definition newPos :: "jsnum \<Rightarrow> jsnum \<Rightarrow> jsnum \<Rightarrow> jsnum" where
  "newPos c p s = Math_max (Fin 0) (Math_min p (js_minus c (Math_max MIN_BUTTON_DIMENSION s)))"

definition newSize :: "jsnum \<Rightarrow> jsnum \<Rightarrow> jsnum \<Rightarrow> jsnum" where
  "newSize c p s = Math_min (Math_max MIN_BUTTON_DIMENSION s) (js_minus c (newPos c p s))"

section \<open>Example data\<close>

text \<open>An empty chart of 800 by 500, and charts holding one button made at time 1000.\<close>

definition exampleChart :: StoredChart where
  "exampleChart =
     \<lparr> chart_name = ''chart'', chart_buttons = [],
       chart_canvasWidth = Some (Fin 800), chart_canvasHeight = Some (Fin 500) \<rparr>"

definition oneButtonChart :: StoredChart where
  "oneButtonChart = exampleChart\<lparr>chart_buttons := [newButton [] 1000]\<rparr>"

definition collidingChart :: StoredChart where
  "collidingChart = exampleChart\<lparr>chart_buttons := [(newButton [] 1000)\<lparr>name := ''old''\<rparr>]\<rparr>"

text \<open>A button at (700, 400) of size 120 by 40, as on a canvas of 800 by 500.\<close>

definition farButton :: ChartButton where
  "farButton = (newButton [] 1000)\<lparr>x := Fin 700, y := Fin 400\<rparr>"

text \<open>The default button after a reclamp with a canvas width that is \<open>NaN\<close>.\<close>

definition poisonedButton :: ChartButton where
  "poisonedButton = (newButton [] 1000)\<lparr>x := NaN, width := NaN\<rparr>"

definition legendDraft :: ChartButton where
  "legendDraft = (newButton [] 1000)\<lparr>legendOverrides := [''A'' \<mapsto> ''Spade-Ace'', ''K'' \<mapsto> ''Kg'']\<rparr>"

text \<open>
  The session that opens \<open>oneButtonChart\<close>, types \<open>abc\<close> into the width field and leaves the
  field, each event followed by its render and effects.
\<close>

definition typedAbc :: EditorState where
  "typedAbc = event (handleDimensionChange ''abc'' dim_width) (initialState oneButtonChart)"

definition blurredAbc :: EditorState where
  "blurredAbc = event (handleDimensionBlur (dimensionValue dim_width typedAbc) dim_width) typedAbc"

text \<open>The session that opens the empty chart, adds a button at time 1000 and saves it.\<close>

definition savedOne :: EditorState where
  "savedOne = handleSaveButtonProperties (handleAddButton [] 1000 (initialState exampleChart))"

section \<open>Facts about the model\<close>

lemmas example_defs = exampleChart_def farButton_def poisonedButton_def newButton_def
  allRanges_def MIN_CANVAS_DIMENSION_def MIN_BUTTON_DIMENSION_def

lemmas handler_defs = handleAddButton_def handleSettingsClick_def handleSaveButtonProperties_def
  handleCancelButtonProperties_def duplicateCurrentButton_def handleDeleteButton_def
  handleDimensionChange_def handleDimensionBlur_def handleSaveLegendOverrides_def
  setEditingButton_def initialState_def

lemmas parse_defs = parseInt_def isStrWhiteSpaceChar_def isDigit_def digitsValue_def digitValue_def

lemmas effect_defs = event_def afterRender_def canvasReclampEffect_def reclampButtons_def
  reclampButton_def Let_def

subsection \<open>\<open>parseInt\<close> and \<open>String\<close> on examples\<close>

lemma parseInt_examples:
  "parseInt ''abc'' = NaN" "parseInt [] = NaN" "parseInt ''5'' = Fin 5"
  "parseInt ''640'' = Fin 640" "parseInt '' -12px'' = Fin (- 12)"
  by (simp_all add: parse_defs)

lemma js_String_examples:
  "js_String 0 = ''0''" "js_String 1000 = ''1000''"
  "js_String 1700000000000 = ''1700000000000''"
  by (simp_all add: js_String.simps)

text \<open>The example charts hold buttons the first reclamp leaves alone.\<close>

lemma mounted_examples:
  "mounted exampleChart = initialState exampleChart"
  "mounted oneButtonChart = initialState oneButtonChart"
  "mounted collidingChart = initialState collidingChart"
  by (simp_all add: mounted_def canvasReclampEffect_def reclampButtons_def reclampButton_def
      Let_def initialState_def oneButtonChart_def collidingChart_def example_defs)

subsection \<open>The callback and the map\<close>

lemma not_js_strict_neq: "\<not> js_strict_neq a b \<Longrightarrow> a = b"
  by (cases a; cases b) simp_all



text \<open>
  Whichever branch the callback takes, the element it returns is the button with the four
  new values: where no field is \<open>!==\<close> its new value, the new values are the old ones.
\<close>

lemma clamp_eq:
  "clamp b cw ch =
     b\<lparr>x := newPos cw (x b) (width b), y := newPos ch (y b) (height b),
       width := newSize cw (x b) (width b), height := newSize ch (y b) (height b)\<rparr>"
  by (auto simp: clamp_def reclampButton_def newPos_def newSize_def Let_def
      dest!: not_js_strict_neq)

lemma reclampMap_eq:
  "reclampMap cw ch c bs =
     (c \<or> list_ex (\<lambda>b. fst (reclampButton cw ch b)) bs, map (\<lambda>b. clamp b cw ch) bs)"
  by (induction bs arbitrary: c) (auto simp: clamp_def split: prod.splits)

lemma reclampButtons_eq:
  "reclampButtons W H bs =
     (if list_ex (\<lambda>b. fst (reclampButton W H b)) bs
      then Fresh (map (\<lambda>b. clamp b W H) bs) else Kept bs)"
  by (simp add: reclampButtons_def reclampMap_eq)

lemma array_of_reclampButtons: "array_of (reclampButtons W H bs) = map (\<lambda>b. clamp b W H) bs"
proof (cases "list_ex (\<lambda>b. fst (reclampButton W H b)) bs")
  case True
  then show ?thesis by (simp add: reclampButtons_eq)
next
  case False
  then have "\<forall>b\<in>set bs. clamp b W H = b"
    by (auto simp: list_ex_iff clamp_def reclampButton_def Let_def)
  then have "map (\<lambda>b. clamp b W H) bs = bs"
    by (simp add: map_idI)
  with False show ?thesis by (simp add: reclampButtons_eq)
qed

subsection \<open>One axis\<close>

lemma newPos_idem: "newPos c (newPos c p s) (newSize c p s) = newPos c p s"
  by (cases c; cases p; cases s)
     (auto simp: newPos_def newSize_def MIN_BUTTON_DIMENSION_def max_def min_def)

lemma newSize_idem: "newSize c (newPos c p s) (newSize c p s) = newSize c p s"
  by (cases c; cases p; cases s)
     (auto simp: newPos_def newSize_def MIN_BUTTON_DIMENSION_def max_def min_def)




subsection \<open>Fixed points of the clamp\<close>






subsection \<open>The handlers\<close>

lemma buttons_fold_setEditingButton: "buttons (fold setEditingButton fs s) = buttons s"
  by (induction fs arbitrary: s) (simp_all add: setEditingButton_def)

lemma buttons_cancel:
  "buttons (handleCancelButtonProperties chart s) =
     (case editingButton s of
        None \<Rightarrow> buttons s
      | Some eb \<Rightarrow> if list_ex (\<lambda>b. id' b = id' eb) (chart_buttons chart) then buttons s
                   else filter (\<lambda>b. id' b \<noteq> id' eb) (buttons s))"
  by (simp add: handleCancelButtonProperties_def Let_def split: option.splits)

lemma editingButton_cancel: "editingButton (handleCancelButtonProperties chart s) = None"
  by (simp add: handleCancelButtonProperties_def Let_def)

section \<open>The geometry clamp\<close>




text \<open>
  C2. The clamp is idempotent: for every button and all canvas dimensions \<open>W >= 100\<close> and
  \<open>H >= 100\<close>, clamping the clamped button again returns the clamped button. (Equality is
  equality of values, under which a \<open>NaN\<close> field equals a \<open>NaN\<close> field; the proof does not need
  the bounds on \<open>W\<close> and \<open>H\<close>.)
\<close>

theorem clamp_idempotent:
  assumes "js_le MIN_CANVAS_DIMENSION W" and "js_le MIN_CANVAS_DIMENSION H"
  shows "clamp (clamp b W H) W H = clamp b W H"
  by (simp add: clamp_eq [of "b\<lparr>x := _, y := _, width := _, height := _\<rparr>"] clamp_eq [of b]
      newPos_idem newSize_idem)

theorem clamp_idempotent_witness:
  "js_le MIN_CANVAS_DIMENSION (Fin 100) \<and>
   clamp (clamp farButton (Fin 100) (Fin 100)) (Fin 100) (Fin 100) =
     clamp farButton (Fin 100) (Fin 100) \<and>
   clamp farButton (Fin 100) (Fin 100) \<noteq> farButton"
proof -
  have c: "js_le MIN_CANVAS_DIMENSION (Fin 100)"
    by (simp add: MIN_CANVAS_DIMENSION_def)
  have d: "x (clamp farButton (Fin 100) (Fin 100)) \<noteq> x farButton"
    by (simp add: clamp_def reclampButton_def Let_def example_defs)
  then have "clamp farButton (Fin 100) (Fin 100) \<noteq> farButton"
    by auto
  with c clamp_idempotent [OF c c, of farButton] show ?thesis by simp
qed

section \<open>Canvas dimensions that are not numbers\<close>

text \<open>
  C3 says that after a text with no number is typed into a dimension field and the field is
  left, every button satisfies the geometry invariant again. The code at this input: the
  chart holds the default button (50, 50, 120, 40) on a canvas of 800 by 500, which satisfies
  the invariant; \<open>abc\<close> is typed into the width field, so \<open>canvasWidth\<close> is \<open>NaN\<close> and the
  reclamp stores \<open>x = NaN\<close> and \<open>width = NaN\<close> in the button; leaving the field sets
  \<open>canvasWidth\<close> to 100, the reclamp runs again and the button keeps \<open>x = NaN\<close> and
  \<open>width = NaN\<close>: the invariant does not hold for the repaired canvas.
\<close>

theorem nan_dimension_poisons_buttons:
  "list_all (geometryInvariant (canvasWidth (initialState oneButtonChart))
      (canvasHeight (initialState oneButtonChart))) (buttons (initialState oneButtonChart)) \<and>
   parseInt ''abc'' = NaN \<and>
   canvasWidth typedAbc = NaN \<and>
   buttons typedAbc = [poisonedButton] \<and>
   canvasWidth blurredAbc = Fin 100 \<and> canvasHeight blurredAbc = Fin 500 \<and>
   buttons blurredAbc = [poisonedButton] \<and>
   \<not> list_all (geometryInvariant (canvasWidth blurredAbc) (canvasHeight blurredAbc))
       (buttons blurredAbc)"
proof -
  have p: "parseInt ''abc'' = NaN" by (simp add: parse_defs)
  have i: "list_all (geometryInvariant (canvasWidth (initialState oneButtonChart))
      (canvasHeight (initialState oneButtonChart))) (buttons (initialState oneButtonChart))"
    by (simp add: initialState_def oneButtonChart_def geometryInvariant_def example_defs)
  have t: "typedAbc =
      (initialState oneButtonChart)\<lparr>canvasWidth := NaN, buttons := [poisonedButton]\<rparr>"
    by (simp add: typedAbc_def handleDimensionChange_def p effect_defs initialState_def
        oneButtonChart_def example_defs)
  have b: "blurredAbc =
      (initialState oneButtonChart)\<lparr>canvasWidth := Fin 100, buttons := [poisonedButton]\<rparr>"
    by (simp add: blurredAbc_def t handleDimensionBlur_def effect_defs initialState_def
        oneButtonChart_def example_defs)
  have n: "\<not> geometryInvariant (Fin 100) (Fin 500) poisonedButton"
    by (simp add: geometryInvariant_def example_defs)
  from p i n show ?thesis
    by (simp add: t b) (simp add: initialState_def oneButtonChart_def exampleChart_def)
qed

text \<open>
  The same for every state and every text that \<open>parseInt\<close> maps to \<open>NaN\<close>: once the width
  field has held such a text, every button has \<open>x = NaN\<close> and \<open>width = NaN\<close> after the field is
  left.
\<close>

lemma nan_width_poisons_every_button:
  assumes "parseInt value = NaN" and "canvasWidth s \<noteq> NaN"
  shows "\<forall>b\<in>set (buttons (event (handleDimensionBlur NaN dim_width)
            (event (handleDimensionChange value dim_width) s))). x b = NaN \<and> width b = NaN"
proof -
  have nan: "x (clamp b NaN H) = NaN \<and> width (clamp b NaN H) = NaN" for b H
    by (simp add: clamp_eq newPos_def newSize_def)
  have keep: "x (clamp b W H) = NaN \<and> width (clamp b W H) = NaN"
    if "x b = NaN" "width b = NaN" for b W H
    using that by (simp add: clamp_eq newPos_def newSize_def MIN_BUTTON_DIMENSION_def)
  let ?s1 = "event (handleDimensionChange value dim_width) s"
  from assms have s1: "?s1 =
      s\<lparr>canvasWidth := NaN, buttons := map (\<lambda>b. clamp b NaN (canvasHeight s)) (buttons s)\<rparr>"
    by (simp add: event_def afterRender_def canvasReclampEffect_def handleDimensionChange_def
        array_of_reclampButtons)
  have "buttons (event (handleDimensionBlur NaN dim_width) ?s1) =
      map (\<lambda>b. clamp b (Fin 100) (canvasHeight s))
        (map (\<lambda>b. clamp b NaN (canvasHeight s)) (buttons s))"
    unfolding s1
    by (simp add: event_def afterRender_def canvasReclampEffect_def handleDimensionBlur_def
        array_of_reclampButtons MIN_CANVAS_DIMENSION_def)
  then show ?thesis
    by (simp add: nan keep)
qed

section \<open>Adding, cancelling and duplicating\<close>

text \<open>
  C4 says that \<open>handleAddButton\<close> followed by \<open>handleCancelButtonProperties\<close> leaves the
  committed collection as it was, for every collection. The code at this input: on the empty
  chart a button is added while the clock reads 1000 and saved, so the collection holds the
  button with id \<open>1000\<close>; a second button is added while the clock still reads 1000 and the
  dialog is cancelled. The cancel removes every button with the draft's id: the collection is
  empty, the saved button is gone.
\<close>

theorem add_cancel_same_millisecond:
  "buttons savedOne = [newButton [] 1000] \<and> editingButton savedOne = None \<and>
   editingButton (handleAddButton [] 1000 savedOne) = Some (newButton [] 1000) \<and>
   buttons (handleCancelButtonProperties exampleChart (handleAddButton [] 1000 savedOne)) = [] \<and>
   buttons (handleCancelButtonProperties exampleChart (handleAddButton [] 1000 savedOne)) \<noteq>
     buttons savedOne"
  by (simp add: savedOne_def handler_defs exampleChart_def Let_def)

text \<open>
  Where the time stamp is the id of no button, neither of the collection nor of the chart
  the session started from, add and cancel do leave the collection as it was.
\<close>

lemma add_then_cancel_fresh:
  assumes "\<not> list_ex (\<lambda>b. id' b = js_String now) (buttons s)"
    and "\<not> list_ex (\<lambda>b. id' b = js_String now) (chart_buttons chart)"
  shows "buttons (handleCancelButtonProperties chart (handleAddButton folders now s)) = buttons s \<and>
         editingButton (handleCancelButtonProperties chart (handleAddButton folders now s)) = None"
proof -
  have i: "id' (newButton folders now) = js_String now"
    by (simp add: newButton_def)
  from assms(1) have "filter (\<lambda>b. id' b \<noteq> js_String now) (buttons s) = buttons s"
    by (simp add: list_ex_iff)
  with assms(2) show ?thesis
    by (simp add: buttons_cancel editingButton_cancel handleAddButton_def i)
qed

text \<open>
  C5. For every button \<open>b\<close> of the working collection whose id is the id of a button of the
  chart the session started from: \<open>handleSettingsClick\<close> on \<open>b\<close>, any number of replacements
  of the draft (\<open>fs\<close>, each any function of the previous draft) and then
  \<open>handleCancelButtonProperties\<close> leave the committed buttons with the id of \<open>b\<close> as they
  were, \<open>b\<close> among them, and clear the draft.
\<close>

theorem cancel_preserves_existing_button:
  assumes "b \<in> set (buttons s)"
    and "list_ex (\<lambda>c. id' c = id' b) (chart_buttons chart)"
  shows "filter (\<lambda>c. id' c = id' b)
           (buttons (handleCancelButtonProperties chart
              (fold setEditingButton fs (handleSettingsClick b s)))) =
         filter (\<lambda>c. id' c = id' b) (buttons s) \<and>
         b \<in> set (buttons (handleCancelButtonProperties chart
              (fold setEditingButton fs (handleSettingsClick b s)))) \<and>
         editingButton (handleCancelButtonProperties chart
              (fold setEditingButton fs (handleSettingsClick b s))) = None"
proof -
  let ?s1 = "fold setEditingButton fs (handleSettingsClick b s)"
  have bs: "buttons ?s1 = buttons s"
    by (simp add: buttons_fold_setEditingButton handleSettingsClick_def)
  have keep: "filter (\<lambda>c. id' c \<noteq> id' eb \<and> id' c = id' b) (buttons s) =
      filter (\<lambda>c. id' c = id' b) (buttons s)"
    if "\<not> list_ex (\<lambda>c. id' c = id' eb) (chart_buttons chart)" for eb :: ChartButton
  proof -
    from that assms(2) have "id' eb \<noteq> id' b"
      by (auto simp: list_ex_iff)
    then show ?thesis
      by (intro filter_cong) auto
  qed
  have f: "filter (\<lambda>c. id' c = id' b) (buttons (handleCancelButtonProperties chart ?s1)) =
      filter (\<lambda>c. id' c = id' b) (buttons s)"
    by (simp add: buttons_cancel bs keep split: option.splits)
  from assms(1) have "b \<in> set (filter (\<lambda>c. id' c = id' b) (buttons s))"
    by simp
  with f have "b \<in> set (filter (\<lambda>c. id' c = id' b)
      (buttons (handleCancelButtonProperties chart ?s1)))"
    by simp
  then have "b \<in> set (buttons (handleCancelButtonProperties chart ?s1))"
    by simp
  with f show ?thesis
    by (simp add: editingButton_cancel)
qed

text \<open>
  Where the replacements keep the draft's id (or clear the draft), the whole collection is
  as it was.
\<close>

lemma cancel_preserves_collection:
  assumes "list_ex (\<lambda>c. id' c = id' b) (chart_buttons chart)"
    and "\<forall>d. editingButton (fold setEditingButton fs (handleSettingsClick b s)) = Some d \<longrightarrow>
           id' d = id' b"
  shows "buttons (handleCancelButtonProperties chart
           (fold setEditingButton fs (handleSettingsClick b s))) = buttons s"
proof (cases "editingButton (fold setEditingButton fs (handleSettingsClick b s))")
  case None
  then show ?thesis
    by (simp add: buttons_cancel buttons_fold_setEditingButton handleSettingsClick_def)
next
  case (Some d)
  with assms(2) have "id' d = id' b" by simp
  with Some assms(1) show ?thesis
    by (simp add: buttons_cancel buttons_fold_setEditingButton handleSettingsClick_def)
qed

theorem cancel_preserves_existing_button_witness:
  "newButton [] 1000 \<in> set (buttons (initialState oneButtonChart)) \<and>
   list_ex (\<lambda>c. id' c = id' (newButton [] 1000)) (chart_buttons oneButtonChart) \<and>
   buttons (handleCancelButtonProperties oneButtonChart
      (fold setEditingButton
         [map_option (\<lambda>d. d\<lparr>name := ''renamed''\<rparr>), map_option (\<lambda>d. d\<lparr>x := Fin 300\<rparr>)]
         (handleSettingsClick (newButton [] 1000) (initialState oneButtonChart)))) =
     [newButton [] 1000] \<and>
   editingButton (handleCancelButtonProperties oneButtonChart
      (fold setEditingButton
         [map_option (\<lambda>d. d\<lparr>name := ''renamed''\<rparr>), map_option (\<lambda>d. d\<lparr>x := Fin 300\<rparr>)]
         (handleSettingsClick (newButton [] 1000) (initialState oneButtonChart)))) = None"
proof -
  have m: "newButton [] 1000 \<in> set (buttons (initialState oneButtonChart))"
    by (simp add: initialState_def oneButtonChart_def)
  have e: "list_ex (\<lambda>c. id' c = id' (newButton [] 1000)) (chart_buttons oneButtonChart)"
    by (simp add: oneButtonChart_def)
  from cancel_preserves_existing_button [OF m e,
      of "[map_option (\<lambda>d. d\<lparr>name := ''renamed''\<rparr>), map_option (\<lambda>d. d\<lparr>x := Fin 300\<rparr>)]"]
  show ?thesis
    using m e by (simp add: handler_defs oneButtonChart_def exampleChart_def)
qed

text \<open>
  C6 says that the copy made by \<open>duplicateCurrentButton\<close> carries an id distinct from every id
  of the collection, the original's in particular. The code at this input: on the empty chart
  a button is added while the clock reads 1000, and duplicated from its dialog while the clock
  still reads 1000. The copy stands at (60, 60) with the size of the original, the draft is
  cleared, and both buttons have the id \<open>1000\<close>.
\<close>

theorem duplicate_same_millisecond:
  "editingButton (handleAddButton [] 1000 (initialState exampleChart)) = Some (newButton [] 1000) \<and>
   buttons (duplicateCurrentButton 1000 (handleAddButton [] 1000 (initialState exampleChart))) =
     [newButton [] 1000, (newButton [] 1000)\<lparr>x := Fin 60, y := Fin 60\<rparr>] \<and>
   editingButton (duplicateCurrentButton 1000 (handleAddButton [] 1000 (initialState exampleChart))) =
     None \<and>
   map id' (buttons (duplicateCurrentButton 1000 (handleAddButton [] 1000 (initialState exampleChart)))) =
     [''1000'', ''1000'']"
  by (simp add: handler_defs exampleChart_def newButton_def js_String.simps)

text \<open>
  What \<open>duplicateCurrentButton\<close> does for every draft: the collection gets one more button,
  the draft with the time stamp as id and 10 added to \<open>x\<close> and \<open>y\<close>; the buttons already
  there stay as they are (the draft's edits are not committed); the draft is cleared. The id
  is new exactly when the time stamp is the id of no button of the collection.
\<close>

lemma duplicateCurrentButton_appends:
  assumes "editingButton s = Some eb"
  shows "buttons (duplicateCurrentButton now s) =
           buttons s @ [eb\<lparr>id' := js_String now, x := js_plus (x eb) (Fin 10),
                           y := js_plus (y eb) (Fin 10)\<rparr>] \<and>
         editingButton (duplicateCurrentButton now s) = None"
  using assms by (simp add: duplicateCurrentButton_def)

section \<open>The reconciler's result\<close>




section \<open>Leaving a dimension field\<close>

text \<open>
  C8. For every pending value \<open>currentValue\<close>, \<open>handleDimensionBlur\<close> sets the dimension to
  100 when the value is \<open>NaN\<close> or a number below 100, and changes nothing when the value is a
  number of at least 100; the buttons, the draft and the other dimension are never touched.
\<close>

theorem handleDimensionBlur_repairs:
  "((currentValue = NaN \<or> (\<exists>n. currentValue = Fin n \<and> n < 100)) \<longrightarrow>
      dimensionValue dimension (handleDimensionBlur currentValue dimension s) = Fin 100) \<and>
   ((\<exists>n. currentValue = Fin n \<and> 100 \<le> n) \<longrightarrow>
      handleDimensionBlur currentValue dimension s = s) \<and>
   buttons (handleDimensionBlur currentValue dimension s) = buttons s \<and>
   editingButton (handleDimensionBlur currentValue dimension s) = editingButton s \<and>
   dimensionValue (if dimension = dim_width then dim_height else dim_width)
     (handleDimensionBlur currentValue dimension s) =
   dimensionValue (if dimension = dim_width then dim_height else dim_width) s"
  by (cases dimension; cases currentValue)
     (auto simp: handleDimensionBlur_def MIN_CANVAS_DIMENSION_def)

text \<open>The texts \<open>abc\<close> and \<open>5\<close> are repaired to 100; \<open>640\<close> is kept.\<close>

theorem handleDimensionBlur_repairs_witness:
  "parseInt ''abc'' = NaN \<and>
   canvasWidth (handleDimensionBlur (parseInt ''abc'') dim_width
      (handleDimensionChange ''abc'' dim_width (initialState exampleChart))) = Fin 100 \<and>
   parseInt ''5'' = Fin 5 \<and>
   canvasHeight (handleDimensionBlur (parseInt ''5'') dim_height
      (handleDimensionChange ''5'' dim_height (initialState exampleChart))) = Fin 100 \<and>
   parseInt ''640'' = Fin 640 \<and>
   handleDimensionBlur (parseInt ''640'') dim_width
      (handleDimensionChange ''640'' dim_width (initialState exampleChart)) =
   handleDimensionChange ''640'' dim_width (initialState exampleChart) \<and>
   canvasWidth (handleDimensionChange ''640'' dim_width (initialState exampleChart)) = Fin 640"
proof -
  have p1: "parseInt ''abc'' = NaN" by (simp add: parse_defs)
  have p2: "parseInt ''5'' = Fin 5" by (simp add: parse_defs)
  have p3: "parseInt ''640'' = Fin 640" by (simp add: parse_defs)
  from handleDimensionBlur_repairs [of "parseInt ''abc''" dim_width
      "handleDimensionChange ''abc'' dim_width (initialState exampleChart)"] p1
  have a: "canvasWidth (handleDimensionBlur (parseInt ''abc'') dim_width
      (handleDimensionChange ''abc'' dim_width (initialState exampleChart))) = Fin 100"
    by simp
  from handleDimensionBlur_repairs [of "parseInt ''5''" dim_height
      "handleDimensionChange ''5'' dim_height (initialState exampleChart)"] p2
  have b: "canvasHeight (handleDimensionBlur (parseInt ''5'') dim_height
      (handleDimensionChange ''5'' dim_height (initialState exampleChart))) = Fin 100"
    by simp
  from handleDimensionBlur_repairs [of "parseInt ''640''" dim_width
      "handleDimensionChange ''640'' dim_width (initialState exampleChart)"] p3
  have c: "handleDimensionBlur (parseInt ''640'') dim_width
      (handleDimensionChange ''640'' dim_width (initialState exampleChart)) =
   handleDimensionChange ''640'' dim_width (initialState exampleChart)"
    by simp
  have d: "canvasWidth (handleDimensionChange ''640'' dim_width (initialState exampleChart)) =
      Fin 640"
    by (simp add: handleDimensionChange_def p3)
  from p1 p2 p3 a b c d show ?thesis by simp
qed

section \<open>Saving legend overrides\<close>

text \<open>
  C9. \<open>handleSaveLegendOverrides\<close> leaves the committed collection, the chart name, the
  canvas and the settings dialog as they were, and closes the legend preview. With no draft, the draft stays unset. With a draft, the new draft is
  the old one with \<open>legendOverrides\<close> replaced by the mapping supplied: every key the new
  mapping does not have is absent from the draft's overrides, whatever the old mapping held,
  and every other field of the draft is as it was.
\<close>

theorem handleSaveLegendOverrides_replaces:
  "buttons (handleSaveLegendOverrides newOverrides s) = buttons s \<and>
   chartName (handleSaveLegendOverrides newOverrides s) = chartName s \<and>
   canvasWidth (handleSaveLegendOverrides newOverrides s) = canvasWidth s \<and>
   canvasHeight (handleSaveLegendOverrides newOverrides s) = canvasHeight s \<and>
   isButtonModalOpen (handleSaveLegendOverrides newOverrides s) = isButtonModalOpen s \<and>
   isLegendPreviewOpen (handleSaveLegendOverrides newOverrides s) = False \<and>
   (editingButton s = None \<longrightarrow> editingButton (handleSaveLegendOverrides newOverrides s) = None) \<and>
   (\<forall>prev. editingButton s = Some prev \<longrightarrow>
      (\<exists>d. editingButton (handleSaveLegendOverrides newOverrides s) = Some d \<and>
           legendOverrides d = newOverrides \<and>
           (\<forall>k. newOverrides k = None \<longrightarrow> legendOverrides d k = None) \<and>
           d\<lparr>legendOverrides := legendOverrides prev\<rparr> = prev))"
  by (auto simp: handleSaveLegendOverrides_def)

text \<open>
  A draft with overrides for \<open>A\<close> and \<open>K\<close>, saved with an override for \<open>K\<close> alone: the
  override for \<open>A\<close> is gone. With no draft, none appears.
\<close>

theorem handleSaveLegendOverrides_replaces_witness:
  "editingButton (handleSaveLegendOverrides [''K'' \<mapsto> ''King'']
      (handleSettingsClick legendDraft (initialState exampleChart))) =
     Some (legendDraft\<lparr>legendOverrides := [''K'' \<mapsto> ''King'']\<rparr>) \<and>
   legendOverrides legendDraft ''A'' = Some ''Spade-Ace'' \<and>
   legendOverrides (the (editingButton (handleSaveLegendOverrides [''K'' \<mapsto> ''King'']
      (handleSettingsClick legendDraft (initialState exampleChart))))) ''A'' = None \<and>
   buttons (handleSaveLegendOverrides [''K'' \<mapsto> ''King'']
      (handleSettingsClick legendDraft (initialState exampleChart))) = [] \<and>
   editingButton (handleSaveLegendOverrides [''K'' \<mapsto> ''King''] (initialState exampleChart)) = None"
proof -
  have e: "editingButton (handleSettingsClick legendDraft (initialState exampleChart)) =
      Some legendDraft"
    by (simp add: handleSettingsClick_def)
  have n: "editingButton (initialState exampleChart) = None"
    by (simp add: initialState_def)
  have k: "[''K'' \<mapsto> ''King''] ''A'' = None"
    by simp
  from handleSaveLegendOverrides_replaces [of "[''K'' \<mapsto> ''King'']"
      "handleSettingsClick legendDraft (initialState exampleChart)"] e k
  have 1: "legendOverrides (the (editingButton (handleSaveLegendOverrides [''K'' \<mapsto> ''King'']
      (handleSettingsClick legendDraft (initialState exampleChart))))) ''A'' = None"
    by auto
  from handleSaveLegendOverrides_replaces [of "[''K'' \<mapsto> ''King'']" "initialState exampleChart"] n
  have 2: "editingButton (handleSaveLegendOverrides [''K'' \<mapsto> ''King'']
      (initialState exampleChart)) = None"
    by simp
  have 3: "editingButton (handleSaveLegendOverrides [''K'' \<mapsto> ''King'']
      (handleSettingsClick legendDraft (initialState exampleChart))) =
     Some (legendDraft\<lparr>legendOverrides := [''K'' \<mapsto> ''King'']\<rparr>)"
    by (simp add: handleSaveLegendOverrides_def handleSettingsClick_def)
  have 4: "legendOverrides legendDraft ''A'' = Some ''Spade-Ace''"
    by (simp add: legendDraft_def)
  have 5: "buttons (handleSaveLegendOverrides [''K'' \<mapsto> ''King'']
      (handleSettingsClick legendDraft (initialState exampleChart))) = []"
    by (simp add: handleSaveLegendOverrides_def handleSettingsClick_def initialState_def
        exampleChart_def)
  from 1 2 3 4 5 show ?thesis by simp
qed

section \<open>Cancelling a button saved in this session\<close>

text \<open>
  C10, as the code has it. The cancel looks the draft's id up in \<open>chart.buttons\<close>, the
  buttons the session started from. So for every button made by \<open>handleAddButton\<close> whose id
  (the time stamp) is the id of no button of \<open>chart.buttons\<close>, and then committed by
  \<open>handleSaveButtonProperties\<close>: the button is in the working collection after the save, and
  \<open>handleSettingsClick\<close> on it followed by \<open>handleCancelButtonProperties\<close> leaves no button
  with its id in the working collection, and clears the draft.
\<close>

theorem cancel_removes_saved_session_button:
  assumes "\<not> list_ex (\<lambda>b. id' b = js_String now) (chart_buttons chart)"
  shows "newButton folders now \<in>
           set (buttons (handleSaveButtonProperties (handleAddButton folders now s))) \<and>
         editingButton (handleSaveButtonProperties (handleAddButton folders now s)) = None \<and>
         (\<forall>c\<in>set (buttons (handleCancelButtonProperties chart
              (handleSettingsClick (newButton folders now)
                 (handleSaveButtonProperties (handleAddButton folders now s))))).
            id' c \<noteq> id' (newButton folders now)) \<and>
         newButton folders now \<notin>
           set (buttons (handleCancelButtonProperties chart
              (handleSettingsClick (newButton folders now)
                 (handleSaveButtonProperties (handleAddButton folders now s))))) \<and>
         editingButton (handleCancelButtonProperties chart
              (handleSettingsClick (newButton folders now)
                 (handleSaveButtonProperties (handleAddButton folders now s)))) = None"
proof -
  have i: "id' (newButton folders now) = js_String now"
    by (simp add: newButton_def)
  let ?s2 = "handleSaveButtonProperties (handleAddButton folders now s)"
  have 1: "newButton folders now \<in> set (buttons ?s2)"
    by (simp add: handleSaveButtonProperties_def handleAddButton_def)
  have 2: "editingButton ?s2 = None"
    by (simp add: handleSaveButtonProperties_def handleAddButton_def)
  have 3: "buttons (handleCancelButtonProperties chart
        (handleSettingsClick (newButton folders now) ?s2)) =
      filter (\<lambda>b. id' b \<noteq> js_String now) (buttons ?s2)"
    using assms by (simp add: buttons_cancel handleSettingsClick_def i)
  from 1 2 show ?thesis
    by (auto simp: 3 i editingButton_cancel)
qed

text \<open>On the empty chart: the button added at time 1000 and saved is removed by the cancel.\<close>

theorem cancel_removes_saved_session_button_witness:
  "\<not> list_ex (\<lambda>b. id' b = js_String 1000) (chart_buttons exampleChart) \<and>
   buttons (handleSaveButtonProperties (handleAddButton [] 1000 (initialState exampleChart))) =
     [newButton [] 1000] \<and>
   buttons (handleCancelButtonProperties exampleChart
      (handleSettingsClick (newButton [] 1000)
         (handleSaveButtonProperties (handleAddButton [] 1000 (initialState exampleChart))))) = []"
proof -
  have h: "\<not> list_ex (\<lambda>b. id' b = js_String 1000) (chart_buttons exampleChart)"
    by (simp add: exampleChart_def)
  have b: "buttons (handleSaveButtonProperties (handleAddButton [] 1000 (initialState exampleChart))) =
     [newButton [] 1000]"
    by (simp add: handler_defs exampleChart_def)
  from cancel_removes_saved_session_button [OF h, of "[]" "initialState exampleChart"]
  have "\<forall>c\<in>set (buttons (handleCancelButtonProperties exampleChart
      (handleSettingsClick (newButton [] 1000)
         (handleSaveButtonProperties (handleAddButton [] 1000 (initialState exampleChart)))))).
      id' c \<noteq> id' (newButton [] 1000)"
    by blast
  moreover have "set (buttons (handleCancelButtonProperties exampleChart
      (handleSettingsClick (newButton [] 1000)
         (handleSaveButtonProperties (handleAddButton [] 1000 (initialState exampleChart))))))
      \<subseteq> {newButton [] 1000}"
    by (auto simp: buttons_cancel b handleSettingsClick_def split: if_splits)
  ultimately have "buttons (handleCancelButtonProperties exampleChart
      (handleSettingsClick (newButton [] 1000)
         (handleSaveButtonProperties (handleAddButton [] 1000 (initialState exampleChart))))) = []"
    by (cases "buttons (handleCancelButtonProperties exampleChart
      (handleSettingsClick (newButton [] 1000)
         (handleSaveButtonProperties (handleAddButton [] 1000 (initialState exampleChart)))))") auto
  with h b show ?thesis by simp
qed

text \<open>
  C10 as stated, for every button made by \<open>handleAddButton\<close>, fails where the time stamp is
  the id of a button the session started from. The chart holds a button with id \<open>1000\<close>; a
  button is added while the clock reads 1000 and saved (the save replaces both buttons with
  that id by the draft); the settings of the saved button are opened and cancelled. The id
  is found in \<open>chart.buttons\<close>, nothing is removed, the saved button stays.
\<close>

theorem cancel_removes_saved_counterexample:
  "buttons (initialState collidingChart) = [(newButton [] 1000)\<lparr>name := ''old''\<rparr>] \<and>
   buttons (handleSaveButtonProperties (handleAddButton [] 1000 (initialState collidingChart))) =
     [newButton [] 1000, newButton [] 1000] \<and>
   newButton [] 1000 \<in> set (buttons (handleCancelButtonProperties collidingChart
      (handleSettingsClick (newButton [] 1000)
         (handleSaveButtonProperties (handleAddButton [] 1000 (initialState collidingChart))))))"
  by (simp add: handler_defs collidingChart_def exampleChart_def Let_def newButton_def)

end
